theory Spec2Isabelle
  imports Main "HOL-Library.List_Lexorder" "HOL-Library.Product_Lexorder"
begin

section \<open>Strings and labels\<close>

text \<open>
  A Python \<open>str\<close> is a sequence of Unicode code points; the labels of the program are
  Korean, so a string is modelled as the list of its code points. Python compares strings
  code point by code point, which is the lexicographic order on these lists.
\<close>

type_synonym pystr = "nat list"

text \<open>The code points for which \<open>str.isspace\<close> holds: what \<open>str.strip()\<close> removes.\<close>

definition py_isspace :: "nat \<Rightarrow> bool" where
  "py_isspace c \<longleftrightarrow>
     (9 \<le> c \<and> c \<le> 13) \<or> (28 \<le> c \<and> c \<le> 32) \<or> c = 133 \<or> c = 160 \<or> c = 5760 \<or>
     (8192 \<le> c \<and> c \<le> 8202) \<or> c = 8232 \<or> c = 8233 \<or> c = 8239 \<or> c = 8287 \<or> c = 12288"

definition strip :: "pystr \<Rightarrow> pystr" where
  "strip s = rev (dropWhile py_isspace (rev (dropWhile py_isspace s)))"

text \<open>The weekday labels U+C6D4, U+D654, U+C218, U+BAA9, U+AE08 (Monday to Friday).\<close>

definition days :: "pystr list" where
  "days = [[50900], [54868], [49688], [47785], [44552]]"

text \<open>The category names of the catalog: soup, main, side.\<close>

definition cat_soup :: pystr where "cat_soup = [49688, 54532]"
definition cat_main :: pystr where "cat_main = [47700, 51064]"
definition cat_side :: pystr where "cat_side = [49324, 51060, 46300]"

text \<open>The row labels of a plan: rice, soup, main, side 1, side 2, other.\<close>

definition lbl_rice :: pystr where "lbl_rice = [51105, 44257, 48165]"
definition lbl_soup :: pystr where "lbl_soup = [44397, 47, 49688, 54532]"
definition lbl_main :: pystr where "lbl_main = [47700, 51064]"
definition lbl_side1 :: pystr where "lbl_side1 = [49324, 51060, 46300, 49]"
definition lbl_side2 :: pystr where "lbl_side2 = [49324, 51060, 46300, 50]"
definition lbl_etc :: pystr where "lbl_etc = [44592, 53440]"

definition row_order :: "pystr list" where
  "row_order = [lbl_rice, lbl_soup, lbl_main, lbl_side1, lbl_side2, lbl_etc]"

definition meal_types :: "pystr list" where
  "meal_types = [lbl_soup, lbl_main, lbl_side1, lbl_side2, lbl_etc]"

section \<open>The catalog\<close>

text \<open>
  A row of the table \<open>menus\<close>. The table has no uniqueness constraint on \<open>name\<close>, so the
  catalog is a list of rows. The nutrient columns hold the integers that the classification
  prompt asks for.
\<close>

record menu =
  name :: pystr
  category :: pystr
  calories :: int
  protein :: int
  fat :: int
  carbs :: int
  sodium :: int

text \<open>
  The exceptions of the modelled code: \<open>ValueError\<close> and \<open>KeyError\<close> are raised by pandas
  (and \<open>ValueError\<close> by \<open>classify_menu\<close> on a malformed response), the others by the
  classification service and by the database.
\<close>

datatype error = ValueError | KeyError | APIError | AuthenticationError | SqliteError

section \<open>make_plan\<close>

text \<open>
  \<open>DataFrame.sample(1)\<close> returns one row of a frame with at least one row and raises
  \<open>ValueError\<close> on a frame with none. The random choice is a parameter: draw \<open>r\<close> selects
  the row at position \<open>r mod n\<close>, so every row can be selected.
\<close>

definition sample1 :: "nat \<Rightarrow> 'a list \<Rightarrow> error + 'a" where
  "sample1 r xs = (if xs = [] then Inl ValueError else Inr (xs ! (r mod length xs)))"

text \<open>The random draws of one weekday; \<open>etc_coin\<close> is the outcome of \<open>random.random() < 0.2\<close>.\<close>

record draws =
  soup_draw :: nat
  main_draw :: nat
  side1_draw :: nat
  side2_draw :: nat
  etc_coin :: bool
  etc_draw :: nat

text \<open>One row of the generated plan: the weekday and the six slot columns.\<close>

record day_plan =
  dp_yoil :: pystr
  dp_rice :: pystr
  dp_soup :: pystr
  dp_main :: pystr
  dp_side1 :: pystr
  dp_side2 :: pystr
  dp_etc :: pystr

definition in_category :: "pystr \<Rightarrow> menu list \<Rightarrow> menu list" where
  "in_category c menus = filter (\<lambda>m. category m = c) menus"

definition not_in_categories :: "menu list \<Rightarrow> menu list" where
  "not_in_categories menus =
     filter (\<lambda>m. category m \<notin> {cat_soup, cat_main, cat_side}) menus"

text \<open>The rows of a category that are not used yet; all rows of the category when none is left.\<close>

definition available :: "pystr \<Rightarrow> pystr set \<Rightarrow> menu list \<Rightarrow> menu list" where
  "available c used_menus menus =
     (let unused = filter (\<lambda>m. name m \<notin> used_menus) (in_category c menus)
      in if unused = [] then in_category c menus else unused)"

definition available_etc :: "pystr set \<Rightarrow> menu list \<Rightarrow> menu list" where
  "available_etc used_menus menus =
     (let unused = filter (\<lambda>m. name m \<notin> used_menus) (not_in_categories menus)
      in if unused = [] then not_in_categories menus else unused)"

text \<open>
  The body of the loop over the weekdays. The four \<open>sample(1)\<close> calls come in the order of
  the source, and each one can raise. The result is the row of the day and the updated
  set of used names.
\<close>

definition plan_day ::
  "menu list \<Rightarrow> draws \<Rightarrow> pystr \<Rightarrow> pystr set \<Rightarrow> error + (day_plan \<times> pystr set)" where
  "plan_day menus d day used_menus =
     (let available_soup = available cat_soup used_menus menus;
          available_main = available cat_main used_menus menus;
          available_side = available cat_side used_menus menus;
          avail_etc = available_etc used_menus menus
      in case sample1 (soup_draw d) available_soup of
           Inl e \<Rightarrow> Inl e
         | Inr soup_menu \<Rightarrow>
      (case sample1 (main_draw d) available_main of
           Inl e \<Rightarrow> Inl e
         | Inr main_menu \<Rightarrow>
      (case sample1 (side1_draw d) available_side of
           Inl e \<Rightarrow> Inl e
         | Inr side_menu1 \<Rightarrow>
      (case sample1 (side2_draw d)
              (filter (\<lambda>m. name m \<noteq> name side_menu1) available_side) of
           Inl e \<Rightarrow> Inl e
         | Inr side_menu2 \<Rightarrow>
      (case (if avail_etc \<noteq> [] \<and> etc_coin d
             then map_sum id (\<lambda>m. (name m, insert (name m) used_menus))
                    (sample1 (etc_draw d) avail_etc)
             else Inr ([], used_menus)) of
           Inl e \<Rightarrow> Inl e
         | Inr (etc_menu_name, used1) \<Rightarrow>
             Inr (\<lparr>dp_yoil = day, dp_rice = lbl_rice, dp_soup = name soup_menu,
                   dp_main = name main_menu, dp_side1 = name side_menu1,
                   dp_side2 = name side_menu2, dp_etc = etc_menu_name\<rparr>,
                  used1 \<union> {name soup_menu, name main_menu, name side_menu1,
                           name side_menu2, lbl_rice}))))))"

fun make_plan_loop ::
  "menu list \<Rightarrow> (pystr \<Rightarrow> draws) \<Rightarrow> pystr list \<Rightarrow> pystr set \<Rightarrow> day_plan list \<Rightarrow>
   error + day_plan list" where
  "make_plan_loop menus rnd [] used_menus plan = Inr plan"
| "make_plan_loop menus rnd (day # ds) used_menus plan =
     (case plan_day menus (rnd day) day used_menus of
        Inl e \<Rightarrow> Inl e
      | Inr (dp, used') \<Rightarrow> make_plan_loop menus rnd ds used' (plan @ [dp]))"

text \<open>
  \<open>make_plan\<close>: the catalog is what \<open>get_all_menus()\<close> returns, \<open>rnd\<close> gives the random
  draws of each weekday. The argument \<open>meal_type\<close> of the source is never read.
\<close>

definition make_plan :: "(pystr \<Rightarrow> draws) \<Rightarrow> menu list \<Rightarrow> error + day_plan list" where
  "make_plan rnd menus = make_plan_loop menus rnd days {} []"

text \<open>Concrete catalogs with short names, and draws that are all zero.\<close>

definition mk_menu :: "pystr \<Rightarrow> pystr \<Rightarrow> menu" where
  "mk_menu n c = \<lparr>name = n, category = c, calories = 100, protein = 10, fat = 5,
                  carbs = 20, sodium = 300\<rparr>"

definition draws0 :: draws where
  "draws0 = \<lparr>soup_draw = 0, main_draw = 0, side1_draw = 0, side2_draw = 0,
             etc_coin = False, etc_draw = 0\<rparr>"

definition rnd0 :: "pystr \<Rightarrow> draws" where
  "rnd0 day = draws0"

definition catalog_no_main :: "menu list" where
  "catalog_no_main = [mk_menu [97] cat_soup, mk_menu [99] cat_side, mk_menu [100] cat_side]"

definition catalog_one_side :: "menu list" where
  "catalog_one_side = [mk_menu [97] cat_soup, mk_menu [98] cat_main, mk_menu [99] cat_side]"

definition catalog_three_sides :: "menu list" where
  "catalog_three_sides =
     [mk_menu [97] cat_soup, mk_menu [98] cat_main, mk_menu [99] cat_side,
      mk_menu [100] cat_side, mk_menu [101] cat_side]"

definition catalog_two_sides :: "menu list" where
  "catalog_two_sides =
     [mk_menu [97] cat_soup, mk_menu [98] cat_main, mk_menu [99] cat_side,
      mk_menu [100] cat_side]"

definition week_two_sides :: "day_plan list" where
  "week_two_sides =
     map (\<lambda>day. \<lparr>dp_yoil = day, dp_rice = lbl_rice, dp_soup = [97], dp_main = [98],
                  dp_side1 = [99], dp_side2 = [100], dp_etc = []\<rparr>) days"

section \<open>Plans as data frames\<close>

text \<open>
  A cell of a data frame holding menu names: a string, or the missing value of pandas.
\<close>

datatype cell = NaN | Str pystr

text \<open>
  A plan frame has one row per weekday: the column of the weekday label and the slot
  columns. A row built from a dictionary has the missing value where it has no entry.
\<close>

record plan_row =
  yoil :: pystr
  cells :: "(pystr \<times> cell) list"

record frame =
  columns :: "pystr list"
  rows :: "plan_row list"

definition row_get :: "plan_row \<Rightarrow> pystr \<Rightarrow> cell" where
  "row_get r c = (case map_of (cells r) c of None \<Rightarrow> NaN | Some v \<Rightarrow> v)"

text \<open>\<open>pd.DataFrame(plan)\<close> at the end of \<open>make_plan\<close>.\<close>

definition frame_of_plan :: "day_plan list \<Rightarrow> frame" where
  "frame_of_plan plan =
     \<lparr>columns = row_order,
      rows = map (\<lambda>dp. \<lparr>yoil = dp_yoil dp,
                           cells = [(lbl_rice, Str (dp_rice dp)), (lbl_soup, Str (dp_soup dp)),
                                    (lbl_main, Str (dp_main dp)), (lbl_side1, Str (dp_side1 dp)),
                                    (lbl_side2, Str (dp_side2 dp)), (lbl_etc, Str (dp_etc dp))]\<rparr>)
               plan\<rparr>"

section \<open>The plan sheets of export_plan\<close>

text \<open>
  A sheet as \<open>parse(sheet_name, index_col=0)\<close> reads it: the labels of the first column,
  the labels of the header row, and the cells row by row.
\<close>

record sheet =
  idx :: "pystr list"
  cols :: "pystr list"
  body :: "cell list list"

text \<open>The sheet names for lunch and dinner.\<close>

definition lunch :: pystr where "lunch = [51216, 49900]"
definition dinner :: pystr where "dinner = [51200, 45377]"

text \<open>Python's \<open>sub in s\<close> on strings.\<close>

fun contains :: "pystr \<Rightarrow> pystr \<Rightarrow> bool" where
  "contains sub [] = (sub = [])"
| "contains sub (c # cs) = (take (length sub) (c # cs) = sub \<or> contains sub cs)"

text \<open>
  The cell of the sheet for a row label and a weekday: the value of the first plan row of
  that weekday, the empty string when the plan has no such row or no such column.
\<close>

definition sheet_cell :: "frame \<Rightarrow> pystr \<Rightarrow> pystr \<Rightarrow> cell" where
  "sheet_cell plan_df row_name day =
     (if row_name \<in> set (columns plan_df)
      then (case filter (\<lambda>r. yoil r = day) (rows plan_df) of
              [] \<Rightarrow> Str []
            | r # _ \<Rightarrow> row_get r row_name)
      else Str [])"

definition plan_out_df :: "frame \<Rightarrow> sheet" where
  "plan_out_df plan_df =
     \<lparr>idx = row_order, cols = days,
      body = map (\<lambda>row_name. map (\<lambda>day. sheet_cell plan_df row_name day) days) row_order\<rparr>"

text \<open>
  Between the export and the import lies the Excel file, written by \<open>to_excel\<close> with the
  xlsxwriter engine and read by \<open>parse\<close>. It is taken to return every label and every text
  cell as written, except that no cell is written for the empty string, which reads back as
  the missing value. (A text that the writer converts, such as one that starts with the
  equals sign, is outside this model.)
\<close>

definition xlsx_cell :: "cell \<Rightarrow> cell" where
  "xlsx_cell c = (if c = Str [] then NaN else c)"

definition to_excel :: "sheet \<Rightarrow> sheet" where
  "to_excel s = s\<lparr>body := map (map xlsx_cell) (body s)\<rparr>"

text \<open>
  The plan sheets that \<open>export_plan\<close> writes, in order: the lunch sheet when the file name
  contains the lunch label or neither label, the dinner sheet when it contains the dinner
  label.
\<close>

definition plan_sheets :: "frame \<Rightarrow> pystr \<Rightarrow> (pystr \<times> sheet) list" where
  "plan_sheets plan_df filename =
     (if contains lunch filename \<or> (\<not> contains dinner filename \<and> \<not> contains lunch filename)
      then [(lunch, to_excel (plan_out_df plan_df))] else [])
     @ (if contains dinner filename then [(dinner, to_excel (plan_out_df plan_df))] else [])"

section \<open>The import of an uploaded plan\<close>

text \<open>A cell of the parsed sheet by position; pandas pads short rows with the missing value.\<close>

definition cell_at :: "cell list \<Rightarrow> nat \<Rightarrow> cell" where
  "cell_at cs j = (if j < length cs then cs ! j else NaN)"

text \<open>
  The import handler after the sheet is parsed: the labels are stripped, the rows whose
  label is a slot label are kept in the order of \<open>row_order\<close>, the table is transposed so
  that every column of the sheet becomes a row with its label in the weekday column, and
  the rows whose label is one of the five weekdays are kept.
\<close>

definition normalize_sheet :: "sheet \<Rightarrow> frame" where
  "normalize_sheet df =
     (let index = map strip (idx df);
          header = map strip (cols df);
          exist_rows = filter (\<lambda>r. r \<in> set index) row_order;
          kept = concat (map (\<lambda>r. filter (\<lambda>lr. fst lr = r) (zip index (body df))) exist_rows);
          df_t = map (\<lambda>jc. \<lparr>yoil = snd jc,
                               cells = map (\<lambda>lr. (fst lr, cell_at (snd lr) (fst jc))) kept\<rparr>)
                   (zip [0..<length header] header)
      in \<lparr>columns = map fst kept,
          rows = filter (\<lambda>r. yoil r \<in> set days) df_t\<rparr>)"

text \<open>
  The handler takes the first sheet whose stripped name is the lunch or the dinner label.
  Without such a sheet it shows a message and imports nothing: the result \<open>None\<close>.
\<close>

definition import_plan :: "(pystr \<times> sheet) list \<Rightarrow> frame option" where
  "import_plan workbook =
     (case find (\<lambda>ns. strip (fst ns) \<in> {lunch, dinner}) workbook of
        None \<Rightarrow> None
      | Some ns \<Rightarrow> Some (normalize_sheet (snd ns)))"

text \<open>Whether a sheet has one of the five weekday labels among its stripped column labels.\<close>

definition has_weekday_column :: "sheet \<Rightarrow> bool" where
  "has_weekday_column df = list_ex (\<lambda>c. strip c \<in> set days) (cols df)"

text \<open>
  The non-empty value of a frame at a weekday and a slot: the string in that column of the
  first row of that weekday, when the column exists and the string is not empty.
\<close>

definition shown :: "cell \<Rightarrow> pystr option" where
  "shown c = (case c of NaN \<Rightarrow> None | Str s \<Rightarrow> if s = [] then None else Some s)"

definition cell_value :: "frame \<Rightarrow> pystr \<Rightarrow> pystr \<Rightarrow> pystr option" where
  "cell_value f day slot =
     (case find (\<lambda>r. yoil r = day) (rows f) of
        None \<Rightarrow> None
      | Some r \<Rightarrow> (if slot \<in> set (columns f) then shown (row_get r slot) else None))"

text \<open>A weekly plan: one row per weekday in the fixed order, and no column but the six slots.\<close>

definition is_weekly_plan :: "frame \<Rightarrow> bool" where
  "is_weekly_plan f \<longleftrightarrow> map yoil (rows f) = days \<and> set (columns f) \<subseteq> set row_order"

section \<open>analyze_menu_plan\<close>

record nutrition_record =
  r_yoil :: pystr
  r_gubun :: pystr
  r_menu :: pystr
  r_calories :: int
  r_protein :: int
  r_fat :: int
  r_carbs :: int
  r_sodium :: int

text \<open>What \<open>classify_menu\<close> returns: the category and the five nutrients.\<close>

record classified =
  cl_category :: pystr
  cl_calories :: int
  cl_protein :: int
  cl_fat :: int
  cl_carbs :: int
  cl_sodium :: int

text \<open>
  The collaborators of the analyzer. The classification service answers the \<open>n\<close>-th call
  for a name with a result or an exception; the database accepts or refuses the insertion of
  a row into the current table.
\<close>

record collaborators =
  classify_menu :: "nat \<Rightarrow> pystr \<Rightarrow> error + classified"
  insert_fails :: "menu list \<Rightarrow> menu \<Rightarrow> bool"

text \<open>
  The state of the loop: the snapshot of the table, the set of known names, the records
  collected so far, and the names passed to the classification service so far.
\<close>

record astate =
  st_menus :: "menu list"
  st_existing :: "pystr set"
  st_data :: "nutrition_record list"
  st_calls :: "pystr list"

text \<open>The name in a cell: none for the missing value and for a blank string.\<close>

definition cell_text :: "cell \<Rightarrow> pystr option" where
  "cell_text c = (case c of NaN \<Rightarrow> None
                  | Str s \<Rightarrow> if strip s \<noteq> [] then Some (strip s) else None)"

definition new_menu :: "pystr \<Rightarrow> classified \<Rightarrow> menu" where
  "new_menu menu_name info =
     \<lparr>name = menu_name, category = cl_category info, calories = cl_calories info,
      protein = cl_protein info, fat = cl_fat info, carbs = cl_carbs info,
      sodium = cl_sodium info\<rparr>"

text \<open>The record of a cell, from the first row of the table with that name.\<close>

definition emit :: "plan_row \<Rightarrow> pystr \<Rightarrow> pystr \<Rightarrow> astate \<Rightarrow> astate" where
  "emit row meal_type menu_name st =
     (case filter (\<lambda>m. name m = menu_name) (st_menus st) of
        [] \<Rightarrow> st
      | m # _ \<Rightarrow>
          st\<lparr>st_data := st_data st @
               [\<lparr>r_yoil = yoil row, r_gubun = meal_type, r_menu = menu_name,
                 r_calories = calories m, r_protein = protein m, r_fat = fat m,
                 r_carbs = carbs m, r_sodium = sodium m\<rparr>]\<rparr>)"

text \<open>
  The body of the inner loop. An unknown name is classified and inserted; when either
  step raises, the handler goes on to the next cell without a record.
\<close>

definition analyze_cell ::
  "collaborators \<Rightarrow> frame \<Rightarrow> plan_row \<Rightarrow> astate \<Rightarrow> pystr \<Rightarrow> astate" where
  "analyze_cell env plan_df row st meal_type =
     (if meal_type \<in> set (columns plan_df)
      then (case cell_text (row_get row meal_type) of
              None \<Rightarrow> st
            | Some menu_name \<Rightarrow>
                (if menu_name \<notin> st_existing st
                 then (let st1 = st\<lparr>st_calls := st_calls st @ [menu_name]\<rparr>
                       in case classify_menu env (length (st_calls st)) menu_name of
                            Inl e \<Rightarrow> st1
                          | Inr info \<Rightarrow>
                              (if insert_fails env (st_menus st) (new_menu menu_name info)
                               then st1
                               else emit row meal_type menu_name
                                      (st1\<lparr>st_menus := st_menus st @ [new_menu menu_name info],
                                           st_existing := insert menu_name (st_existing st)\<rparr>)))
                 else emit row meal_type menu_name st))
      else st)"

definition analyze_row :: "collaborators \<Rightarrow> frame \<Rightarrow> astate \<Rightarrow> plan_row \<Rightarrow> astate" where
  "analyze_row env plan_df st row = foldl (analyze_cell env plan_df row) st meal_types"

definition analyze_rows :: "collaborators \<Rightarrow> menu list \<Rightarrow> frame \<Rightarrow> astate" where
  "analyze_rows env menus plan_df =
     foldl (analyze_row env plan_df)
       \<lparr>st_menus = menus, st_existing = set (map name menus), st_data = [], st_calls = []\<rparr>
       (rows plan_df)"

text \<open>
  The sort at the end: the rank of the weekday in \<open>day_order\<close> first (a weekday that is not
  in the dictionary has no rank and goes last), the string of the slot column second.
\<close>

definition day_order :: "pystr \<rightharpoonup> nat" where
  "day_order = map_of (zip days [0..<5])"

definition yoil_rank :: "pystr \<Rightarrow> nat" where
  "yoil_rank d = (case day_order d of None \<Rightarrow> 5 | Some k \<Rightarrow> k)"

definition sort_values :: "nutrition_record list \<Rightarrow> nutrition_record list" where
  "sort_values recs = sort_key (\<lambda>r. (yoil_rank (r_yoil r), r_gubun r)) recs"

text \<open>
  The result of \<open>analyze_menu_plan\<close>: the sorted records, or the \<open>KeyError\<close> that indexing
  the weekday column raises when the frame of the records has no row and so no column;
  with it the names passed to the classification service and the table afterwards.
\<close>

record analysis =
  nutrition_df :: "error + nutrition_record list"
  classify_calls :: "pystr list"
  final_menus :: "menu list"

definition analyze_menu_plan :: "collaborators \<Rightarrow> menu list \<Rightarrow> frame \<Rightarrow> analysis" where
  "analyze_menu_plan env menus plan_df =
     (let st = analyze_rows env menus plan_df
      in \<lparr>nutrition_df = (if st_data st = [] then Inl KeyError
                           else Inr (sort_values (st_data st))),
          classify_calls = st_calls st,
          final_menus = st_menus st\<rparr>)"

section \<open>The daily totals of export_plan\<close>

record daily_total =
  t_yoil :: pystr
  t_calories :: int
  t_protein :: int
  t_fat :: int
  t_carbs :: int
  t_sodium :: int

text \<open>
  \<open>groupby(...).agg(sum)\<close>: every record is added to the group of its weekday, a new group
  is opened for a weekday seen for the first time, and the groups come out sorted by key.
\<close>

definition new_total :: "nutrition_record \<Rightarrow> daily_total" where
  "new_total r =
     \<lparr>t_yoil = r_yoil r, t_calories = r_calories r, t_protein = r_protein r,
      t_fat = r_fat r, t_carbs = r_carbs r, t_sodium = r_sodium r\<rparr>"

definition add_total :: "daily_total \<Rightarrow> nutrition_record \<Rightarrow> daily_total" where
  "add_total t r =
     t\<lparr>t_calories := t_calories t + r_calories r,
       t_protein := t_protein t + r_protein r,
       t_fat := t_fat t + r_fat r,
       t_carbs := t_carbs t + r_carbs r,
       t_sodium := t_sodium t + r_sodium r\<rparr>"

fun agg_add :: "nutrition_record \<Rightarrow> daily_total list \<Rightarrow> daily_total list" where
  "agg_add r [] = [new_total r]"
| "agg_add r (t # ts) =
     (if t_yoil t = r_yoil r then add_total t r # ts else t # agg_add r ts)"

definition groupby_sum :: "nutrition_record list \<Rightarrow> daily_total list" where
  "groupby_sum recs = sort_key t_yoil (foldl (\<lambda>acc r. agg_add r acc) [] recs)"

text \<open>The sheet of the daily totals is written only for a frame of records with rows.\<close>

definition daily_totals :: "nutrition_record list \<Rightarrow> daily_total list option" where
  "daily_totals recs = (if recs \<noteq> [] then Some (groupby_sum recs) else None)"

text \<open>
  \<open>export_plan\<close>: the plan sheets, the sheet of the records and the sheet of the totals.
  The exception of the analyzer leaves the function.
\<close>

record workbook =
  wb_plan :: "(pystr \<times> sheet) list"
  wb_nutrition :: "nutrition_record list"
  wb_totals :: "daily_total list option"

definition export_plan ::
  "collaborators \<Rightarrow> menu list \<Rightarrow> frame \<Rightarrow> pystr \<Rightarrow> error + workbook" where
  "export_plan env menus plan_df filename =
     (case nutrition_df (analyze_menu_plan env menus plan_df) of
        Inl e \<Rightarrow> Inl e
      | Inr recs \<Rightarrow>
          Inr \<lparr>wb_plan = plan_sheets plan_df filename, wb_nutrition = recs,
               wb_totals = daily_totals recs\<rparr>)"

text \<open>The order of the slots in the enumeration Soup, Main, Side1, Side2, Other.\<close>

definition slot_rank :: "pystr \<Rightarrow> nat" where
  "slot_rank s = (if s = lbl_soup then 0 else if s = lbl_main then 1
                  else if s = lbl_side1 then 2 else if s = lbl_side2 then 3 else 4)"

definition sorted_by_slot_enumeration :: "nutrition_record list \<Rightarrow> bool" where
  "sorted_by_slot_enumeration recs =
     sorted (map (\<lambda>r. (yoil_rank (r_yoil r), slot_rank (r_gubun r))) recs)"

text \<open>A sheet with one slot row and one column, whose label is no weekday.\<close>

definition sheet_no_weekday :: sheet where
  "sheet_no_weekday = \<lparr>idx = [lbl_soup], cols = [[120]], body = [[Str [97]]]\<rparr>"

text \<open>Concrete inputs of the analyzer: a service that is down, catalogs and plans.\<close>

definition env_down :: collaborators where
  "env_down = \<lparr>classify_menu = (\<lambda>n s. Inl APIError), insert_fails = (\<lambda>t m. False)\<rparr>"

definition monday :: pystr where "monday = [50900]"

definition catalog_main_etc :: "menu list" where
  "catalog_main_etc = [mk_menu [98] cat_main, mk_menu [101] lbl_etc]"

definition plan_main_etc :: frame where
  "plan_main_etc =
     \<lparr>columns = [lbl_main, lbl_etc],
      rows = [\<lparr>yoil = monday, cells = [(lbl_main, Str [98]), (lbl_etc, Str [101])]\<rparr>]\<rparr>"

definition recs_main_etc :: "nutrition_record list" where
  "recs_main_etc =
     [\<lparr>r_yoil = monday, r_gubun = lbl_etc, r_menu = [101], r_calories = 100, r_protein = 10,
       r_fat = 5, r_carbs = 20, r_sodium = 300\<rparr>,
      \<lparr>r_yoil = monday, r_gubun = lbl_main, r_menu = [98], r_calories = 100, r_protein = 10,
       r_fat = 5, r_carbs = 20, r_sodium = 300\<rparr>]"

definition plan_unknown :: frame where
  "plan_unknown =
     \<lparr>columns = [lbl_main], rows = [\<lparr>yoil = monday, cells = [(lbl_main, Str [120])]\<rparr>]\<rparr>"

definition plan_rice_only :: frame where
  "plan_rice_only =
     \<lparr>columns = [lbl_rice, lbl_main],
      rows = [\<lparr>yoil = monday, cells = [(lbl_rice, Str lbl_rice), (lbl_main, NaN)]\<rparr>]\<rparr>"

text \<open>Two records of a Monday, with 300 and 450 calories, and their totals.\<close>

definition recs_monday :: "nutrition_record list" where
  "recs_monday =
     [\<lparr>r_yoil = monday, r_gubun = lbl_soup, r_menu = [97], r_calories = 300, r_protein = 10,
       r_fat = 5, r_carbs = 20, r_sodium = 300\<rparr>,
      \<lparr>r_yoil = monday, r_gubun = lbl_main, r_menu = [98], r_calories = 450, r_protein = 30,
       r_fat = 15, r_carbs = 40, r_sodium = 700\<rparr>]"

definition totals_monday :: "daily_total list" where
  "totals_monday =
     [\<lparr>t_yoil = monday, t_calories = 750, t_protein = 40, t_fat = 20, t_carbs = 60,
       t_sodium = 1000\<rparr>]"

text \<open>The sum of a column over the totals rows, and over the records, of one weekday.\<close>

definition key_sum :: "(daily_total \<Rightarrow> int) \<Rightarrow> pystr \<Rightarrow> daily_total list \<Rightarrow> int" where
  "key_sum tf d ts = sum_list (map tf (filter (\<lambda>t. t_yoil t = d) ts))"

definition day_sum :: "(nutrition_record \<Rightarrow> int) \<Rightarrow> pystr \<Rightarrow> nutrition_record list \<Rightarrow> int" where
  "day_sum rf d recs = sum_list (map rf (filter (\<lambda>r. r_yoil r = d) recs))"

text \<open>The cells of a row that the analyzer reads: the slot columns of the frame with a name.\<close>

definition filled :: "frame \<Rightarrow> plan_row \<Rightarrow> pystr \<Rightarrow> bool" where
  "filled plan_df row meal_type \<longleftrightarrow>
     meal_type \<in> set (columns plan_df) \<and> cell_text (row_get row meal_type) \<noteq> None"

definition filled_cells :: "frame \<Rightarrow> (plan_row \<times> pystr) list" where
  "filled_cells plan_df =
     concat (map (\<lambda>row. map (Pair row) (filter (filled plan_df row) meal_types)) (rows plan_df))"

text \<open>A plan of which every filled cell names a menu of the catalog.\<close>

definition known_plan :: "menu list \<Rightarrow> frame \<Rightarrow> bool" where
  "known_plan menus plan_df \<longleftrightarrow>
     (\<forall>rm \<in> set (filled_cells plan_df).
        \<forall>n. cell_text (row_get (fst rm) (snd rm)) = Some n \<longrightarrow> n \<in> set (map name menus))"

text \<open>
  A step that calls no collaborator: the calls, the table and the known names stay, and
  \<open>k\<close> records are added.
\<close>

definition quiet :: "astate \<Rightarrow> astate \<Rightarrow> nat \<Rightarrow> bool" where
  "quiet st st' k \<longleftrightarrow>
     st_calls st' = st_calls st \<and> st_menus st' = st_menus st \<and> st_existing st' = st_existing st
     \<and> length (st_data st') = length (st_data st) + k"

section \<open>Properties of make_plan\<close>

lemma available_empty_set: "available c {} menus = in_category c menus"
  by (simp add: available_def Let_def)

lemma plan_day_first_fails:
  assumes "in_category cat_soup menus = [] \<or> in_category cat_main menus = []
           \<or> in_category cat_side menus = []"
  shows "plan_day menus d day {} = Inl ValueError"
  using assms
  by (auto simp: plan_day_def available_empty_set sample1_def Let_def split: sum.splits)

text \<open>
  C1. When the catalog has no row of category soup, or none of category main, or none of
  category side, \<open>make_plan\<close> fails: the first \<open>sample(1)\<close> on an empty frame raises the
  \<open>ValueError\<close> of pandas on the first weekday, whatever the random draws. This exception
  is the failure that the specification names EmptyCatalogError.
\<close>

theorem make_plan_empty_category_fails:
  assumes "in_category cat_soup menus = [] \<or> in_category cat_main menus = []
           \<or> in_category cat_side menus = []"
  shows "make_plan rnd menus = Inl ValueError"
  using plan_day_first_fails [OF assms]
  by (simp add: make_plan_def days_def)

theorem make_plan_empty_category_fails_witness:
  "in_category cat_main catalog_no_main = []
   \<and> make_plan rnd0 catalog_no_main = Inl ValueError"
proof -
  have h: "in_category cat_main catalog_no_main = []"
    by (simp add: in_category_def catalog_no_main_def mk_menu_def cat_main_def cat_soup_def
        cat_side_def)
  then have "in_category cat_soup catalog_no_main = [] \<or> in_category cat_main catalog_no_main = []
           \<or> in_category cat_side catalog_no_main = []"
    by simp
  from make_plan_empty_category_fails [OF this, of rnd0] h show ?thesis
    by simp
qed

lemmas label_defs = cat_soup_def cat_main_def cat_side_def lbl_rice_def lbl_soup_def
  lbl_main_def lbl_side1_def lbl_side2_def lbl_etc_def

lemmas make_plan_defs = make_plan_def days_def plan_day_def available_def available_etc_def
  in_category_def not_in_categories_def sample1_def mk_menu_def draws0_def rnd0_def Let_def

text \<open>
  C3. The claim says that a catalog with exactly one side row gives a plan whose second
  side slot is empty. The code raises instead: on the first weekday the only side row is
  drawn for the first side slot, the candidates of the second slot are none, and
  \<open>sample(1)\<close> raises \<open>ValueError\<close> before the guard on an empty selection is reached.
\<close>

theorem make_plan_single_side_raises:
  assumes "in_category cat_side menus = [s]"
  shows "make_plan rnd menus = Inl ValueError"
proof -
  have "plan_day menus d day {} = Inl ValueError" for d day
    using assms
    by (auto simp: plan_day_def available_empty_set sample1_def Let_def split: sum.splits)
  then show ?thesis by (simp add: make_plan_def days_def)
qed

theorem make_plan_single_side_raises_witness:
  "in_category cat_side catalog_one_side = [mk_menu [99] cat_side]
   \<and> make_plan rnd0 catalog_one_side = Inl ValueError"
proof -
  have h: "in_category cat_side catalog_one_side = [mk_menu [99] cat_side]"
    by (simp add: in_category_def catalog_one_side_def mk_menu_def label_defs)
  from make_plan_single_side_raises [OF h, of rnd0] h show ?thesis
    by simp
qed

text \<open>
  C6. The claim says that a catalog with a row in each of the three categories gives five
  day plans. With one soup, one main and three sides the code raises on the second
  weekday: the first weekday uses two sides, one unused side is left, it is drawn for the
  first side slot and nothing is left for the second.
\<close>

theorem make_plan_three_sides_raises:
  "make_plan rnd0 catalog_three_sides = Inl ValueError"
  by (simp add: make_plan_defs catalog_three_sides_def label_defs)

lemma sample1_mem: "sample1 r xs = Inr x \<Longrightarrow> x \<in> set xs"
  by (auto simp: sample1_def split: if_splits)

lemma plan_day_sides_differ:
  assumes "plan_day menus d day used_menus = Inr (dp, used')"
  shows "dp_side1 dp \<noteq> dp_side2 dp"
  using assms
  by (auto simp: plan_day_def Let_def split: sum.splits if_splits dest!: sample1_mem)

lemma make_plan_loop_sides_differ:
  assumes "make_plan_loop menus rnd ds used_menus acc = Inr plan"
    and "\<forall>dp \<in> set acc. dp_side1 dp \<noteq> dp_side2 dp"
  shows "\<forall>dp \<in> set plan. dp_side1 dp \<noteq> dp_side2 dp"
  using assms
proof (induction ds arbitrary: used_menus acc)
  case Nil
  then show ?case by simp
next
  case (Cons day ds)
  from Cons.prems(1) obtain dp used' where
    step: "plan_day menus (rnd day) day used_menus = Inr (dp, used')"
    and rest: "make_plan_loop menus rnd ds used' (acc @ [dp]) = Inr plan"
    by (auto split: sum.splits)
  have "\<forall>x \<in> set (acc @ [dp]). dp_side1 x \<noteq> dp_side2 x"
    using Cons.prems(2) plan_day_sides_differ [OF step] by auto
  from Cons.IH [OF rest this] show ?case .
qed

lemma make_plan_two_sides: "make_plan rnd0 catalog_two_sides = Inr week_two_sides"
  by (simp add: make_plan_defs catalog_two_sides_def week_two_sides_def label_defs)

text \<open>
  C7. In every plan that \<open>make_plan\<close> returns, the two side slots of every day hold
  different names: the second side is drawn from the side candidates whose name differs
  from the first. This holds for every catalog, so in particular for the catalogs with two
  or more distinct side rows of the claim.
\<close>

theorem make_plan_sides_differ:
  assumes "make_plan rnd menus = Inr plan" and "dp \<in> set plan"
  shows "dp_side1 dp \<noteq> dp_side2 dp"
  using make_plan_loop_sides_differ [of menus rnd days "{}" "[]" plan] assms
  by (simp add: make_plan_def)

theorem make_plan_sides_differ_witness:
  "make_plan rnd0 catalog_two_sides = Inr week_two_sides
   \<and> hd week_two_sides \<in> set week_two_sides
   \<and> dp_side1 (hd week_two_sides) \<noteq> dp_side2 (hd week_two_sides)"
proof -
  have m: "hd week_two_sides \<in> set week_two_sides"
    by (simp add: week_two_sides_def days_def)
  from make_plan_sides_differ [OF make_plan_two_sides m] make_plan_two_sides m
  show ?thesis by simp
qed

section \<open>Properties of the export and the import\<close>

lemma strip_lunch: "strip lunch = lunch" and strip_dinner: "strip dinner = dinner"
  by (simp_all add: strip_def lunch_def dinner_def py_isspace_def)

lemma strip_labels: "map strip row_order = row_order" "map strip days = days"
  by (simp_all add: strip_def row_order_def days_def label_defs py_isspace_def)

lemma find_hd_filter: "find P xs = (case filter P xs of [] \<Rightarrow> None | x # _ \<Rightarrow> Some x)"
  by (induction xs) auto

lemma find_map_key:
  assumes "\<And>d. yoil (g d) = d"
  shows "find (\<lambda>r. yoil r = day) (map g ds) = (if day \<in> set ds then Some (g day) else None)"
  using assms by (induction ds) auto

text \<open>Whatever the file name, the import finds the plan sheet that the export wrote.\<close>

lemma import_exported:
  "import_plan (plan_sheets plan_df filename) =
     Some (normalize_sheet (to_excel (plan_out_df plan_df)))"
  by (simp add: import_plan_def plan_sheets_def strip_lunch strip_dinner)

lemma normalize_exported:
  "normalize_sheet (to_excel (plan_out_df plan_df)) =
     \<lparr>columns = row_order,
      rows = map (\<lambda>day. \<lparr>yoil = day,
                    cells = map (\<lambda>l. (l, xlsx_cell (sheet_cell plan_df l day))) row_order\<rparr>)
               days\<rparr>"
proof -
  have "normalize_sheet
          \<lparr>idx = row_order, cols = days,
           body = map (\<lambda>row_name. map (\<lambda>day. xlsx_cell (sheet_cell plan_df row_name day)) days)
                    row_order\<rparr> =
        \<lparr>columns = row_order,
         rows = map (\<lambda>day. \<lparr>yoil = day,
                       cells = map (\<lambda>l. (l, xlsx_cell (sheet_cell plan_df l day))) row_order\<rparr>)
                  days\<rparr>"
    unfolding normalize_sheet_def
    by (simp add: strip_labels)
       (simp add: row_order_def days_def label_defs cell_at_def upt_rec [of _ "numeral _"])
  then show ?thesis by (simp add: to_excel_def plan_out_df_def comp_def)
qed

lemma cell_value_reimported:
  "cell_value (normalize_sheet (to_excel (plan_out_df plan_df))) day slot =
     (if day \<in> set days \<and> slot \<in> set row_order
      then shown (xlsx_cell (sheet_cell plan_df slot day)) else None)"
  by (simp add: normalize_exported cell_value_def find_map_key row_get_def
      map_of_map_restrict restrict_map_def)

lemma cell_value_weekly:
  assumes "is_weekly_plan plan_df"
  shows "cell_value plan_df day slot =
     (if day \<in> set days \<and> slot \<in> set row_order
      then shown (xlsx_cell (sheet_cell plan_df slot day)) else None)"
proof (cases "day \<in> set days")
  case False
  have "set days = yoil ` set (rows plan_df)"
    using assms by (metis is_weekly_plan_def set_map)
  with False have "\<not> (\<exists>r. r \<in> set (rows plan_df) \<and> yoil r = day)"
    by auto
  then have "find (\<lambda>r. yoil r = day) (rows plan_df) = None"
    by (simp add: find_None_iff)
  with False show ?thesis by (simp add: cell_value_def)
next
  case True
  then have "day \<in> yoil ` set (rows plan_df)"
    using assms by (metis is_weekly_plan_def set_map)
  then have "filter (\<lambda>r. yoil r = day) (rows plan_df) \<noteq> []"
    by (auto simp: filter_empty_conv)
  then obtain r rs where f: "filter (\<lambda>r. yoil r = day) (rows plan_df) = r # rs"
    by (cases "filter (\<lambda>r. yoil r = day) (rows plan_df)") auto
  have sub: "slot \<in> set (columns plan_df) \<Longrightarrow> slot \<in> set row_order"
    using assms by (auto simp: is_weekly_plan_def)
  show ?thesis
    using True f sub
    by (auto simp: cell_value_def find_hd_filter sheet_cell_def xlsx_cell_def shown_def
        split: cell.splits)
qed

lemma make_plan_loop_yoil:
  assumes "make_plan_loop menus rnd ds used_menus acc = Inr plan"
  shows "map dp_yoil plan = map dp_yoil acc @ ds"
  using assms
proof (induction ds arbitrary: used_menus acc)
  case Nil
  then show ?case by simp
next
  case (Cons day ds)
  from Cons.prems obtain dp used' where
    step: "plan_day menus (rnd day) day used_menus = Inr (dp, used')"
    and rest: "make_plan_loop menus rnd ds used' (acc @ [dp]) = Inr plan"
    by (auto split: sum.splits)
  have "dp_yoil dp = day"
    using step by (auto simp: plan_day_def Let_def split: sum.splits if_splits)
  with Cons.IH [OF rest] show ?case by simp
qed

text \<open>The frame of every plan that \<open>make_plan\<close> returns is a weekly plan.\<close>

lemma make_plan_is_weekly:
  assumes "make_plan rnd menus = Inr plan"
  shows "is_weekly_plan (frame_of_plan plan)"
  using make_plan_loop_yoil [of menus rnd days "{}" "[]" plan] assms
  by (simp add: make_plan_def is_weekly_plan_def frame_of_plan_def comp_def)

text \<open>
  C4. A weekly plan is exported to the sheet with the slot labels as rows and the weekday
  labels as columns, and the sheet is imported again. Whatever the file name, the import
  gives a weekly plan with the same non-empty value at every weekday and slot. (An empty
  string of the plan is no cell of the sheet and comes back as the missing value.)
\<close>

theorem export_import_roundtrip:
  assumes "is_weekly_plan plan_df"
  shows "\<exists>f. import_plan (plan_sheets plan_df filename) = Some f \<and> is_weekly_plan f
           \<and> (\<forall>day slot. cell_value f day slot = cell_value plan_df day slot)"
proof -
  let ?f = "normalize_sheet (to_excel (plan_out_df plan_df))"
  have "is_weekly_plan ?f"
    by (simp add: normalize_exported is_weekly_plan_def comp_def)
  moreover have "cell_value ?f day slot = cell_value plan_df day slot" for day slot
    by (simp add: cell_value_reimported cell_value_weekly [OF assms])
  ultimately show ?thesis
    using import_exported by blast
qed

theorem export_import_roundtrip_witness:
  "is_weekly_plan (frame_of_plan week_two_sides)
   \<and> (\<exists>f. import_plan (plan_sheets (frame_of_plan week_two_sides) lunch) = Some f
          \<and> is_weekly_plan f
          \<and> (\<forall>day slot. cell_value f day slot
                           = cell_value (frame_of_plan week_two_sides) day slot))"
proof -
  have w: "is_weekly_plan (frame_of_plan week_two_sides)"
    using make_plan_is_weekly [OF make_plan_two_sides] .
  from export_import_roundtrip [OF w, of lunch] w show ?thesis
    by simp
qed

lemma normalize_rows_empty:
  assumes "\<not> has_weekday_column df"
  shows "rows (normalize_sheet df) = []"
proof -
  have "\<forall>c \<in> set (map strip (cols df)). c \<notin> set days"
    using assms by (auto simp: has_weekday_column_def list_ex_iff)
  then show ?thesis
    by (auto simp: normalize_sheet_def Let_def filter_empty_conv dest!: set_zip_rightD)
qed

text \<open>
  C5, as the claim states it, fails: a sheet named for lunch whose only column label is no
  weekday is imported without any failure, and the result is a plan without rows.
\<close>

theorem import_no_weekday_counterexample:
  "\<not> has_weekday_column sheet_no_weekday
   \<and> import_plan [(lunch, sheet_no_weekday)] = Some \<lparr>columns = [lbl_soup], rows = []\<rparr>"
  by (simp add: has_weekday_column_def sheet_no_weekday_def import_plan_def lunch_def dinner_def
      normalize_sheet_def strip_def py_isspace_def days_def row_order_def label_defs cell_at_def)

text \<open>
  C5, amended. When the sheet that the import takes has none of the five weekday labels
  among its stripped column labels, the import does not fail: it returns the normalized
  plan, and that plan has no row.
\<close>

theorem import_without_weekday_column:
  assumes "find (\<lambda>ns. strip (fst ns) \<in> {lunch, dinner}) workbook = Some (n, df)"
    and "\<not> has_weekday_column df"
  shows "import_plan workbook = Some (normalize_sheet df) \<and> rows (normalize_sheet df) = []"
  using assms normalize_rows_empty [OF assms(2)]
  by (simp add: import_plan_def)

theorem import_without_weekday_column_witness:
  "find (\<lambda>ns. strip (fst ns) \<in> {lunch, dinner}) [(lunch, sheet_no_weekday)]
     = Some (lunch, sheet_no_weekday)
   \<and> \<not> has_weekday_column sheet_no_weekday
   \<and> import_plan [(lunch, sheet_no_weekday)] = Some (normalize_sheet sheet_no_weekday)
   \<and> rows (normalize_sheet sheet_no_weekday) = []"
proof -
  have f: "find (\<lambda>ns. strip (fst ns) \<in> {lunch, dinner}) [(lunch, sheet_no_weekday)]
             = Some (lunch, sheet_no_weekday)"
    by (simp add: strip_lunch)
  have h: "\<not> has_weekday_column sheet_no_weekday"
    by (simp add: has_weekday_column_def sheet_no_weekday_def strip_def py_isspace_def days_def)
  from import_without_weekday_column [OF f h] f h show ?thesis
    by simp
qed

section \<open>Properties of analyze_menu_plan\<close>

lemmas analyze_defs = analyze_menu_plan_def analyze_rows_def analyze_row_def analyze_cell_def
  meal_types_def row_get_def cell_text_def emit_def strip_def py_isspace_def Let_def

lemma data_main_etc:
  "st_data (analyze_rows env_down catalog_main_etc plan_main_etc) = rev recs_main_etc"
  by (simp add: analyze_defs plan_main_etc_def catalog_main_etc_def mk_menu_def env_down_def
      recs_main_etc_def label_defs monday_def)

lemma sort_values_main_etc: "sort_values (rev recs_main_etc) = recs_main_etc"
  by (simp add: sort_values_def recs_main_etc_def label_defs)

lemma analyze_main_etc:
  "nutrition_df (analyze_menu_plan env_down catalog_main_etc plan_main_etc) = Inr recs_main_etc"
  using data_main_etc sort_values_main_etc
  by (simp add: analyze_menu_plan_def Let_def recs_main_etc_def)

lemma yoil_rank_days: "map yoil_rank days = [0, 1, 2, 3, 4]"
  by (simp add: yoil_rank_def day_order_def days_def upt_rec [of _ "numeral _"])

lemma label_order: "sorted_wrt (<) [lbl_soup, lbl_etc, lbl_main, lbl_side1, lbl_side2]"
  by (simp add: label_defs)

text \<open>
  C2, as the claim states it, fails: for a Monday with a main dish and an other dish, both
  in the catalog, the record of the slot Other comes before the record of the slot Main,
  which is not the order of the enumeration Soup, Main, Side1, Side2, Other.
\<close>

theorem analyze_slot_order_counterexample:
  "nutrition_df (analyze_menu_plan env_down catalog_main_etc plan_main_etc) = Inr recs_main_etc
   \<and> \<not> sorted_by_slot_enumeration recs_main_etc"
proof -
  have "\<not> sorted_by_slot_enumeration recs_main_etc"
    by (simp add: sorted_by_slot_enumeration_def recs_main_etc_def slot_rank_def label_defs)
  with analyze_main_etc show ?thesis by simp
qed

text \<open>
  C2, amended. The records that the analyzer returns are sorted by the rank of the weekday,
  Monday to Friday being 0 to 4, and within a weekday by the slot label as a string, code
  point by code point; for the five slot labels that order is Soup, Other, Main, Side1,
  Side2.
\<close>

theorem analyze_sorted:
  assumes "nutrition_df (analyze_menu_plan env menus plan_df) = Inr recs"
  shows "sorted (map (\<lambda>r. (yoil_rank (r_yoil r), r_gubun r)) recs)
         \<and> map yoil_rank days = [0, 1, 2, 3, 4]
         \<and> sorted_wrt (<) [lbl_soup, lbl_etc, lbl_main, lbl_side1, lbl_side2]"
  using assms yoil_rank_days label_order
  by (auto simp: analyze_menu_plan_def Let_def sort_values_def split: if_splits)

theorem analyze_sorted_witness:
  "nutrition_df (analyze_menu_plan env_down catalog_main_etc plan_main_etc) = Inr recs_main_etc
   \<and> sorted (map (\<lambda>r. (yoil_rank (r_yoil r), r_gubun r)) recs_main_etc)
   \<and> map yoil_rank days = [0, 1, 2, 3, 4]
   \<and> sorted_wrt (<) [lbl_soup, lbl_etc, lbl_main, lbl_side1, lbl_side2]"
  using analyze_sorted [OF analyze_main_etc] analyze_main_etc
  by simp

text \<open>
  C8. The claim says that a failed classification is never fatal and that the run still
  returns the records of the other cells. For a plan whose only cell names a menu that is
  not in the catalog, with the service down, the cell is skipped, no record is left, and the
  run raises \<open>KeyError\<close>: the frame built from no record has no weekday column to sort by.
\<close>

theorem analyze_failed_classification_raises:
  "analyze_menu_plan env_down catalog_two_sides plan_unknown =
     \<lparr>nutrition_df = Inl KeyError, classify_calls = [[120]], final_menus = catalog_two_sides\<rparr>"
  by (simp add: analyze_defs plan_unknown_def catalog_two_sides_def mk_menu_def env_down_def
      label_defs monday_def)

text \<open>
  C9. The claim says that a plan which names only menus of the catalog gives one record per
  filled cell of the five analyzed slots. For a plan with the rice cell alone filled there is
  no such cell: the classification service is not called, and the run raises \<open>KeyError\<close>
  instead of returning no record.
\<close>

theorem analyze_rice_only_raises:
  "analyze_menu_plan env catalog_two_sides plan_rice_only =
     \<lparr>nutrition_df = Inl KeyError, classify_calls = [], final_menus = catalog_two_sides\<rparr>"
  by (simp add: analyze_defs plan_rice_only_def catalog_two_sides_def mk_menu_def
      label_defs monday_def)

section \<open>Properties of the daily totals\<close>

lemma add_total_yoil: "t_yoil (add_total t r) = t_yoil t"
  by (simp add: add_total_def)

lemma new_total_yoil: "t_yoil (new_total r) = r_yoil r"
  by (simp add: new_total_def)

lemma agg_add_keys:
  "map t_yoil (agg_add r ts) =
     (if r_yoil r \<in> set (map t_yoil ts) then map t_yoil ts else map t_yoil ts @ [r_yoil r])"
  by (induction ts) (auto simp: add_total_yoil new_total_yoil)

lemma agg_add_key_set: "set (map t_yoil (agg_add r ts)) = insert (r_yoil r) (set (map t_yoil ts))"
  by (auto simp: agg_add_keys)

lemma agg_add_distinct: "distinct (map t_yoil ts) \<Longrightarrow> distinct (map t_yoil (agg_add r ts))"
  by (simp add: agg_add_keys)

lemma key_sum_agg_add:
  assumes "\<And>r. tf (new_total r) = rf r" and "\<And>t r. tf (add_total t r) = tf t + rf r"
  shows "key_sum tf d (agg_add r ts) = key_sum tf d ts + (if r_yoil r = d then rf r else 0)"
  by (induction ts) (auto simp: key_sum_def assms add_total_yoil new_total_yoil)

lemma foldl_keys:
  "set (map t_yoil (foldl (\<lambda>acc r. agg_add r acc) ts recs))
     = set (map t_yoil ts) \<union> set (map r_yoil recs)"
proof (induction recs arbitrary: ts)
  case Nil
  show ?case by simp
next
  case (Cons r recs)
  show ?case
    using Cons.IH [of "agg_add r ts"] agg_add_key_set [of r ts] by auto
qed

lemma foldl_distinct:
  "distinct (map t_yoil ts) \<Longrightarrow> distinct (map t_yoil (foldl (\<lambda>acc r. agg_add r acc) ts recs))"
  by (induction recs arbitrary: ts) (simp_all add: agg_add_distinct)

lemma key_sum_foldl:
  assumes "\<And>r. tf (new_total r) = rf r" and "\<And>t r. tf (add_total t r) = tf t + rf r"
  shows "key_sum tf d (foldl (\<lambda>acc r. agg_add r acc) ts recs) = key_sum tf d ts + day_sum rf d recs"
proof (induction recs arbitrary: ts)
  case Nil
  show ?case by (simp add: day_sum_def)
next
  case (Cons r recs)
  show ?case
    by (simp add: Cons.IH key_sum_agg_add [of tf rf, OF assms] day_sum_def)
qed

lemma key_sum_absent: "d \<notin> set (map t_yoil ts) \<Longrightarrow> key_sum tf d ts = 0"
proof -
  assume "d \<notin> set (map t_yoil ts)"
  then have "filter (\<lambda>t. t_yoil t = d) ts = []"
    by (auto simp: filter_empty_conv)
  then show ?thesis by (simp add: key_sum_def)
qed

lemma key_sum_distinct:
  assumes "distinct (map t_yoil ts)" and "t \<in> set ts"
  shows "key_sum tf (t_yoil t) ts = tf t"
  using assms
proof (induction ts)
  case Nil
  then show ?case by simp
next
  case (Cons a ts)
  show ?case
  proof (cases "t = a")
    case True
    with Cons.prems have "key_sum tf (t_yoil t) ts = 0"
      by (intro key_sum_absent) simp
    with True show ?thesis by (simp add: key_sum_def)
  next
    case False
    with Cons.prems have "t \<in> set ts" "t_yoil a \<noteq> t_yoil t" by auto
    with Cons show ?thesis by (simp add: key_sum_def)
  qed
qed

lemma total_is_day_sum:
  assumes "\<And>r. tf (new_total r) = rf r" and "\<And>t r. tf (add_total t r) = tf t + rf r"
    and "t \<in> set (groupby_sum recs)"
  shows "tf t = day_sum rf (t_yoil t) recs"
proof -
  let ?acc = "foldl (\<lambda>acc r. agg_add r acc) [] recs"
  have d: "distinct (map t_yoil ?acc)" by (rule foldl_distinct) simp
  have m: "t \<in> set ?acc" using assms(3) by (simp add: groupby_sum_def)
  have "tf t = key_sum tf (t_yoil t) ?acc"
    using key_sum_distinct [OF d m] by simp
  also have "\<dots> = day_sum rf (t_yoil t) recs"
    using key_sum_foldl [of tf rf "t_yoil t" "[]" recs, OF assms(1,2)] by (simp add: key_sum_def)
  finally show ?thesis .
qed

lemma groupby_keys:
  "distinct (map t_yoil (groupby_sum recs))" "sorted (map t_yoil (groupby_sum recs))"
  "set (map t_yoil (groupby_sum recs)) = set (map r_yoil recs)"
proof -
  let ?acc = "foldl (\<lambda>acc r. agg_add r acc) [] recs"
  have d: "distinct (map t_yoil ?acc)" by (rule foldl_distinct) simp
  then have "distinct ?acc" "inj_on t_yoil (set ?acc)" by (simp_all add: distinct_map)
  then show "distinct (map t_yoil (groupby_sum recs))"
    by (simp add: groupby_sum_def distinct_map)
  show "sorted (map t_yoil (groupby_sum recs))" by (simp add: groupby_sum_def)
  show "set (map t_yoil (groupby_sum recs)) = set (map r_yoil recs)"
    using foldl_keys [of "[]" recs] by (simp add: groupby_sum_def)
qed

text \<open>
  C10. For a sequence of records that is not empty, the sheet of the daily totals is
  written. It has exactly one row for every weekday that occurs in the records and none for
  any other weekday, and each of the five nutrient columns of a row is the sum of that
  nutrient over the records of the weekday of the row.
\<close>

theorem daily_totals_sums:
  assumes "recs \<noteq> []"
  shows "daily_totals recs = Some (groupby_sum recs)
    \<and> distinct (map t_yoil (groupby_sum recs))
    \<and> set (map t_yoil (groupby_sum recs)) = set (map r_yoil recs)
    \<and> (\<forall>t \<in> set (groupby_sum recs).
          t_calories t = sum_list (map r_calories (filter (\<lambda>r. r_yoil r = t_yoil t) recs))
        \<and> t_protein t = sum_list (map r_protein (filter (\<lambda>r. r_yoil r = t_yoil t) recs))
        \<and> t_fat t = sum_list (map r_fat (filter (\<lambda>r. r_yoil r = t_yoil t) recs))
        \<and> t_carbs t = sum_list (map r_carbs (filter (\<lambda>r. r_yoil r = t_yoil t) recs))
        \<and> t_sodium t = sum_list (map r_sodium (filter (\<lambda>r. r_yoil r = t_yoil t) recs)))"
proof -
  have "t_calories t = day_sum r_calories (t_yoil t) recs" if "t \<in> set (groupby_sum recs)" for t
    by (rule total_is_day_sum [OF _ _ that]) (simp_all add: new_total_def add_total_def)
  moreover have "t_protein t = day_sum r_protein (t_yoil t) recs" if "t \<in> set (groupby_sum recs)" for t
    by (rule total_is_day_sum [OF _ _ that]) (simp_all add: new_total_def add_total_def)
  moreover have "t_fat t = day_sum r_fat (t_yoil t) recs" if "t \<in> set (groupby_sum recs)" for t
    by (rule total_is_day_sum [OF _ _ that]) (simp_all add: new_total_def add_total_def)
  moreover have "t_carbs t = day_sum r_carbs (t_yoil t) recs" if "t \<in> set (groupby_sum recs)" for t
    by (rule total_is_day_sum [OF _ _ that]) (simp_all add: new_total_def add_total_def)
  moreover have "t_sodium t = day_sum r_sodium (t_yoil t) recs" if "t \<in> set (groupby_sum recs)" for t
    by (rule total_is_day_sum [OF _ _ that]) (simp_all add: new_total_def add_total_def)
  ultimately show ?thesis
    using assms groupby_keys(1,3) [of recs]
    by (simp add: daily_totals_def day_sum_def)
qed

lemma groupby_monday: "groupby_sum recs_monday = totals_monday"
  by (simp add: groupby_sum_def recs_monday_def totals_monday_def new_total_def add_total_def)

theorem daily_totals_sums_witness:
  "recs_monday \<noteq> []
   \<and> daily_totals recs_monday = Some totals_monday
   \<and> map t_yoil totals_monday = [monday]
   \<and> t_calories (hd totals_monday)
       = sum_list (map r_calories (filter (\<lambda>r. r_yoil r = t_yoil (hd totals_monday)) recs_monday))
   \<and> t_calories (hd totals_monday) = 750"
proof -
  have ne: "recs_monday \<noteq> []" by (simp add: recs_monday_def)
  have m: "hd totals_monday \<in> set (groupby_sum recs_monday)"
    by (simp add: groupby_monday totals_monday_def)
  have v: "t_calories (hd totals_monday) = 750" "map t_yoil totals_monday = [monday]"
    by (simp_all add: totals_monday_def)
  from daily_totals_sums [OF ne] m groupby_monday ne v show ?thesis
    by simp
qed

section \<open>Further properties of the analyzer, the planner and the export\<close>

lemma emit_known:
  assumes "n \<in> set (map name (st_menus st))"
  shows "\<exists>r. emit row mt n st = st\<lparr>st_data := st_data st @ [r]\<rparr>"
proof -
  from assms have "filter (\<lambda>m. name m = n) (st_menus st) \<noteq> []"
    by (auto simp: filter_empty_conv)
  then show ?thesis
    by (cases "filter (\<lambda>m. name m = n) (st_menus st)") (auto simp: emit_def)
qed

lemma analyze_cell_known:
  assumes inv: "st_existing st = set (map name (st_menus st))"
    and known: "\<And>n. filled plan_df row mt \<Longrightarrow> cell_text (row_get row mt) = Some n \<Longrightarrow> n \<in> st_existing st"
  shows "quiet st (analyze_cell env plan_df row st mt) (if filled plan_df row mt then 1 else 0)"
proof (cases "filled plan_df row mt")
  case False
  then show ?thesis
    by (auto simp: analyze_cell_def filled_def quiet_def)
next
  case True
  then obtain n where n: "cell_text (row_get row mt) = Some n" and c: "mt \<in> set (columns plan_df)"
    by (auto simp: filled_def)
  from known [OF True n] have k: "n \<in> st_existing st" .
  with inv obtain r where "emit row mt n st = st\<lparr>st_data := st_data st @ [r]\<rparr>"
    using emit_known [of n st row mt] by auto
  with True n c k show ?thesis
    by (simp add: analyze_cell_def quiet_def)
qed

lemma analyze_cells_known:
  assumes "st_existing st = set (map name (st_menus st))"
    and "\<And>mt n. mt \<in> set mts \<Longrightarrow> filled plan_df row mt \<Longrightarrow> cell_text (row_get row mt) = Some n
           \<Longrightarrow> n \<in> st_existing st"
  shows "quiet st (foldl (analyze_cell env plan_df row) st mts)
           (length (filter (filled plan_df row) mts))"
  using assms
proof (induction mts arbitrary: st)
  case Nil
  show ?case by (simp add: quiet_def)
next
  case (Cons mt mts)
  let ?st1 = "analyze_cell env plan_df row st mt"
  have "\<And>n. filled plan_df row mt \<Longrightarrow> cell_text (row_get row mt) = Some n
           \<Longrightarrow> n \<in> st_existing st"
    using Cons.prems(2) [of mt] by simp
  then have q1: "quiet st ?st1 (if filled plan_df row mt then 1 else 0)"
    by (rule analyze_cell_known [OF Cons.prems(1)])
  then have e: "st_existing ?st1 = st_existing st" "st_menus ?st1 = st_menus st"
    by (simp_all add: quiet_def)
  have inv1: "st_existing ?st1 = set (map name (st_menus ?st1))"
    using Cons.prems(1) by (simp only: e)
  have p2: "n \<in> st_existing ?st1"
    if "mt' \<in> set mts" "filled plan_df row mt'" "cell_text (row_get row mt') = Some n"
    for mt' n
    using Cons.prems(2) [of mt' n] that by (simp only: e list.set insert_iff simp_thms)
  have q2: "quiet ?st1 (foldl (analyze_cell env plan_df row) ?st1 mts)
              (length (filter (filled plan_df row) mts))"
    by (rule Cons.IH [OF inv1 p2])
  from q1 q2 show ?case by (auto simp: quiet_def)
qed

lemma analyze_rows_known:
  assumes "st_existing st = set (map name (st_menus st))"
    and "\<And>row mt n. row \<in> set rs \<Longrightarrow> mt \<in> set meal_types \<Longrightarrow> filled plan_df row mt
           \<Longrightarrow> cell_text (row_get row mt) = Some n \<Longrightarrow> n \<in> st_existing st"
  shows "quiet st (foldl (analyze_row env plan_df) st rs)
           (length (concat (map (\<lambda>row. map (Pair row) (filter (filled plan_df row) meal_types)) rs)))"
  using assms
proof (induction rs arbitrary: st)
  case Nil
  show ?case by (simp add: quiet_def)
next
  case (Cons row rs)
  let ?st1 = "analyze_row env plan_df st row"
  have "\<And>mt n. mt \<in> set meal_types \<Longrightarrow> filled plan_df row mt
           \<Longrightarrow> cell_text (row_get row mt) = Some n \<Longrightarrow> n \<in> st_existing st"
    using Cons.prems(2) [of row] by simp
  then have q1: "quiet st ?st1 (length (filter (filled plan_df row) meal_types))"
    unfolding analyze_row_def
    by (rule analyze_cells_known [OF Cons.prems(1)])
  then have e: "st_existing ?st1 = st_existing st" "st_menus ?st1 = st_menus st"
    by (simp_all add: quiet_def)
  have inv1: "st_existing ?st1 = set (map name (st_menus ?st1))"
    using Cons.prems(1) by (simp only: e)
  have p2: "n \<in> st_existing ?st1"
    if "row' \<in> set rs" "mt \<in> set meal_types" "filled plan_df row' mt"
      "cell_text (row_get row' mt) = Some n"
    for row' mt n
    using Cons.prems(2) [of row' mt n] that by (simp only: e list.set insert_iff simp_thms)
  have q2: "quiet ?st1 (foldl (analyze_row env plan_df) ?st1 rs)
              (length (concat (map (\<lambda>row. map (Pair row) (filter (filled plan_df row) meal_types)) rs)))"
    by (rule Cons.IH [OF inv1 p2])
  from q1 q2 show ?case by (auto simp: quiet_def)
qed

lemma length_sort_values: "length (sort_values recs) = length recs"
  by (simp add: sort_values_def)

text \<open>
  For a plan that names only menus of the catalog and has at least one filled cell in the
  analyzed slots, the classification service is not called, the table is not changed, and
  the analyzer returns one record for every filled cell.
\<close>

lemma analyze_known_plan:
  assumes "known_plan menus plan_df" and "filled_cells plan_df \<noteq> []"
  shows "\<exists>recs. analyze_menu_plan env menus plan_df =
                  \<lparr>nutrition_df = Inr recs, classify_calls = [], final_menus = menus\<rparr>
               \<and> length recs = length (filled_cells plan_df)"
proof -
  let ?st0 = "\<lparr>st_menus = menus, st_existing = set (map name menus), st_data = [], st_calls = []\<rparr>"
  have "quiet ?st0 (foldl (analyze_row env plan_df) ?st0 (rows plan_df))
          (length (filled_cells plan_df))"
    unfolding filled_cells_def
  proof (rule analyze_rows_known)
    show "st_existing ?st0 = set (map name (st_menus ?st0))" by simp
  next
    fix row mt n
    assume "row \<in> set (rows plan_df)" "mt \<in> set meal_types" "filled plan_df row mt"
      "cell_text (row_get row mt) = Some n"
    moreover from this have "(row, mt) \<in> set (filled_cells plan_df)"
      by (auto simp: filled_cells_def)
    ultimately show "n \<in> st_existing ?st0"
      using assms(1) by (auto simp: known_plan_def)
  qed
  then have q: "quiet ?st0 (analyze_rows env menus plan_df) (length (filled_cells plan_df))"
    by (simp add: analyze_rows_def)
  with assms(2) have "st_data (analyze_rows env menus plan_df) \<noteq> []"
    by (auto simp: quiet_def)
  with q show ?thesis
    by (simp add: analyze_menu_plan_def Let_def quiet_def length_sort_values)
qed

text \<open>
  A cell whose classification raises, or whose insertion raises, leaves no record and
  changes nothing but the list of the calls; the loop goes on with the next cell.
\<close>

lemma analyze_cell_classification_fails:
  assumes "meal_type \<in> set (columns plan_df)"
    and "cell_text (row_get row meal_type) = Some n" and "n \<notin> st_existing st"
    and "classify_menu env (length (st_calls st)) n = Inl e"
  shows "analyze_cell env plan_df row st meal_type = st\<lparr>st_calls := st_calls st @ [n]\<rparr>"
  using assms by (simp add: analyze_cell_def)

lemma analyze_cell_insert_fails:
  assumes "meal_type \<in> set (columns plan_df)"
    and "cell_text (row_get row meal_type) = Some n" and "n \<notin> st_existing st"
    and "classify_menu env (length (st_calls st)) n = Inr info"
    and "insert_fails env (st_menus st) (new_menu n info)"
  shows "analyze_cell env plan_df row st meal_type = st\<lparr>st_calls := st_calls st @ [n]\<rparr>"
  using assms by (simp add: analyze_cell_def)

text \<open>The run returns the sorted records whenever at least one cell gave a record.\<close>

lemma analyze_returns_records:
  assumes "st_data (analyze_rows env menus plan_df) \<noteq> []"
  shows "nutrition_df (analyze_menu_plan env menus plan_df)
           = Inr (sort_values (st_data (analyze_rows env menus plan_df)))"
  using assms by (simp add: analyze_menu_plan_def Let_def)

lemma sort_values_Nil: "sort_values recs = [] \<longleftrightarrow> recs = []"
  using length_sort_values [of recs] by (metis length_0_conv)

text \<open>What a successful \<open>export_plan\<close> writes: the plan sheets, the records, and their totals.\<close>

lemma export_plan_sheets:
  assumes "export_plan env menus plan_df filename = Inr wb"
  shows "wb_plan wb = plan_sheets plan_df filename
         \<and> nutrition_df (analyze_menu_plan env menus plan_df) = Inr (wb_nutrition wb)
         \<and> wb_totals wb = Some (groupby_sum (wb_nutrition wb))"
  using assms
  by (auto simp: export_plan_def daily_totals_def analyze_menu_plan_def Let_def
      sort_values_Nil split: sum.splits if_splits)

text \<open>
  Every row that the loop of \<open>make_plan\<close> produces has the fixed rice value, and its soup,
  main and side names are names of the catalog rows of those categories.
\<close>

lemma plan_day_shape:
  assumes "plan_day menus d day used_menus = Inr (dp, used')"
  shows "dp_yoil dp = day \<and> dp_rice dp = lbl_rice
         \<and> dp_soup dp \<in> set (map name (in_category cat_soup menus))
         \<and> dp_main dp \<in> set (map name (in_category cat_main menus))
         \<and> dp_side1 dp \<in> set (map name (in_category cat_side menus))
         \<and> dp_side2 dp \<in> set (map name (in_category cat_side menus))"
  using assms
  by (auto simp: plan_day_def available_def Let_def split: sum.splits if_splits
      dest!: sample1_mem)

end
